theory Spec2Isabelle
  imports Main "HOL-Library.AList"
begin

section \<open>The attendance submission page (src/pages/AttendanceSubmission.tsx)\<close>

text \<open>
  The page is a React component: five pieces of component state, one effect that resolves
  the space for the code in the route (\<open>fetchSpace\<close>), one submit handler (\<open>onSubmit\<close>)
  and a render function that picks one of five views. The model is explicit state passing
  over a record of the component state. Everything the component does to the outside
  (queries against the store, \<open>console.error\<close>, toasts) is appended to a trace kept in the
  state, so that "no insert call is issued" is a statement about that trace.

  Strings are \<open>string\<close>: the model covers JavaScript strings whose code units are below 256.
  Timestamps are the integer millisecond values of JavaScript \<open>Date\<close> objects.

  Four things the component relies on are not its own code and are modelled by what they
  do: the store client (a query either rejects or resolves to \<open>{data, error}\<close>); the form
  library (an object of values in which a field's name is read as a path, written by the
  change handlers of the inputs and checked against the rules of the registered fields
  before the submit handler is called); the regular expression engine (a match of an
  anchored pattern against the whole string); and React (a state update shows in the
  page only once a render has been committed).
\<close>

subsection \<open>Values that arrive from the store\<close>

text \<open>
  \<open>required_fields\<close> is declared \<open>any\<close> in the source and comes from a JSONB column, so it
  is modelled as a JSON value. Of a number the page only ever asks whether it is zero.
\<close>

datatype json =
    JNull
  | JBool bool
  | JNum int
  | JStr string
  | JArr "json list"
  | JObj "(string \<times> json) list"

text \<open>\<open>interface Space\<close>; \<open>id\<close> and \<open>type\<close> are renamed \<open>sid\<close> and \<open>stype\<close>.\<close>

record Space =
  sid :: string
  title :: string
  stype :: string
  required_fields :: json
  status :: string
  start_time :: "string option"
  end_time :: "string option"

text \<open>The two columns of a \<open>users\<close> row that the page reads.\<close>

record user_row =
  full_name :: "string option"
  email :: "string option"

text \<open>The authenticated identity of \<open>useAuth\<close>; only its \<open>id\<close> is used.\<close>

datatype User = User (uid: string)

text \<open>
  What an awaited store query gives back: the promise rejects (\<open>Threw\<close>), or it resolves
  to the object \<open>{data, error}\<close>, either of which may be null.
\<close>

datatype 'a response = Threw | Resp "'a option" "string option"

subsection \<open>The values of the form\<close>

text \<open>
  The form library keeps the values of a form in one JavaScript object, and that object
  is what \<open>onSubmit\<close> receives as \<open>data\<close>. The interface \<open>SubmissionData\<close> declares it a
  flat object of strings; at run time it is what the library built: strings, objects,
  and arrays, which may have holes and named members besides their elements.

  Members are listed in the order in which they were first written (JavaScript lists
  members named by an array index first; the order has no meaning in the JSON that is
  sent to the store). A member whose value is undefined is not listed: the library
  enters a field without a value as undefined when the field is first registered, and
  that entry is left out here, as JSON leaves it out. The members a value inherits (of a
  string: its length and characters) are not modelled and read as undefined.
\<close>

datatype jsval =
    Undefined
  | Str string
  | Obj "(string \<times> jsval) list"
  | Arr "jsval list" "(string \<times> jsval) list"

type_synonym SubmissionData = jsval

fun is_container :: "jsval \<Rightarrow> bool" where
  "is_container (Obj _) = True"
| "is_container (Arr _ _) = True"
| "is_container _ = False"

definition is_digit :: "char \<Rightarrow> bool" where
  "is_digit c = (48 \<le> (of_char c :: nat) \<and> (of_char c :: nat) \<le> 57)"

definition decimal_value :: "string \<Rightarrow> nat" where
  "decimal_value s = foldl (\<lambda>n c. 10 * n + (of_char c - 48)) 0 s"

text \<open>
  A member name is an array index when it is the decimal numeral, without leading
  zeros, of a number below \<open>2^32 - 1\<close>.
\<close>

definition array_index :: "string \<Rightarrow> nat option" where
  "array_index k =
     (if k \<noteq> [] \<and> list_all is_digit k \<and> (k = ''0'' \<or> hd k \<noteq> CHR ''0'')
         \<and> decimal_value k < 4294967295
      then Some (decimal_value k) else None)"

text \<open>\<open>object[key]\<close>, read.\<close>

fun member :: "jsval \<Rightarrow> string \<Rightarrow> jsval" where
  "member (Obj kvs) k = (case map_of kvs k of None \<Rightarrow> Undefined | Some v \<Rightarrow> v)"
| "member (Arr xs ps) k =
     (case array_index k of
        Some i \<Rightarrow> (if i < length xs then xs ! i else Undefined)
      | None \<Rightarrow> (case map_of ps k of None \<Rightarrow> Undefined | Some v \<Rightarrow> v))"
| "member _ k = Undefined"

text \<open>
  \<open>object[key] = value\<close>. An array grows to hold an index beyond its end, leaving holes.
\<close>

fun put :: "string \<Rightarrow> jsval \<Rightarrow> jsval \<Rightarrow> jsval" where
  "put k v (Obj kvs) = Obj (AList.update k v kvs)"
| "put k v (Arr xs ps) =
     (case array_index k of
        Some i \<Rightarrow> (if i < length xs then Arr (xs[i := v]) ps
                   else Arr (xs @ replicate (i - length xs) Undefined @ [v]) ps)
      | None \<Rightarrow> Arr xs (AList.update k v ps))"
| "put k v x = x"

subsection \<open>Effects and component state\<close>

text \<open>The object passed to \<open>insert\<close>; its \<open>fields\<close> member is named \<open>sfields\<close>.\<close>

record submission =
  space_id :: string
  user_id :: "string option"
  sfields :: SubmissionData

datatype effect =
    SelectSpace string
  | SelectUser string
  | InsertRecord submission
  | ConsoleError string
  | Toast string string

record page =
  space :: "Space option"
  loading :: bool
  isSubmitting :: bool
  submitted :: bool
  error :: "string option"
  formValues :: SubmissionData
  trace :: "effect list"

text \<open>The state of the first render: the \<open>useState\<close> initial values and an empty form.\<close>

definition initial :: page where
  "initial = \<lparr>space = None, loading = True, isSubmitting = False, submitted = False,
     error = None, formValues = Obj [], trace = []\<rparr>"

definition emit :: "effect \<Rightarrow> page \<Rightarrow> page" where
  "emit e st = st\<lparr>trace := trace st @ [e]\<rparr>"

text \<open>The insert calls of a trace, in order.\<close>

fun inserts :: "effect list \<Rightarrow> submission list" where
  "inserts [] = []"
| "inserts (InsertRecord r # es) = r # inserts es"
| "inserts (_ # es) = inserts es"

text \<open>The prefill queries of a trace, in order.\<close>

fun prefills :: "effect list \<Rightarrow> string list" where
  "prefills [] = []"
| "prefills (SelectUser u # es) = u # prefills es"
| "prefills (_ # es) = prefills es"

text \<open>The messages written with \<open>console.error\<close>, in order.\<close>

fun logged :: "effect list \<Rightarrow> string list" where
  "logged [] = []"
| "logged (ConsoleError m # es) = m # logged es"
| "logged (_ # es) = logged es"

subsection \<open>JavaScript truthiness\<close>

text \<open>A value of type \<open>string | null | undefined\<close> is truthy when it is a non-empty string.\<close>

fun truthy_str :: "string option \<Rightarrow> bool" where
  "truthy_str None = False"
| "truthy_str (Some s) = (s \<noteq> [])"

fun truthy :: "json \<Rightarrow> bool" where
  "truthy JNull = False"
| "truthy (JBool b) = b"
| "truthy (JNum n) = (n \<noteq> 0)"
| "truthy (JStr s) = (s \<noteq> [])"
| "truthy (JArr _) = True"
| "truthy (JObj _) = True"

subsection \<open>The Session Resolver: \<open>fetchSpace\<close>\<close>

text \<open>\<open>Array.isArray(data.required_fields) ? data.required_fields : []\<close>\<close>

fun isArray :: "json \<Rightarrow> bool" where
  "isArray (JArr _) = True"
| "isArray _ = False"

definition array_or_empty :: "json \<Rightarrow> json" where
  "array_or_empty v = (if isArray v then v else JArr [])"

text \<open>\<open>setSpace({...data, required_fields: ...})\<close>\<close>

definition setSpace :: "Space \<Rightarrow> page \<Rightarrow> page" where
  "setSpace d st = st\<lparr>space := Some (d\<lparr>required_fields := array_or_empty (required_fields d)\<rparr>)\<rparr>"

text \<open>
  \<open>data.end_time && new Date(data.end_time) < new Date()\<close>. Parsing a date string is the
  runtime's business: \<open>parse\<close> gives the time value of \<open>new Date(s)\<close>, or \<open>None\<close> for an
  invalid date, whose comparison with anything is false. \<open>now\<close> is the time value of
  \<open>new Date()\<close>.
\<close>

definition has_ended :: "(string \<Rightarrow> int option) \<Rightarrow> int \<Rightarrow> Space \<Rightarrow> bool" where
  "has_ended parse now d =
     (truthy_str (end_time d) \<and>
      (case parse (the (end_time d)) of None \<Rightarrow> False | Some t \<Rightarrow> t < now))"

text \<open>\<open>userData.full_name || ''\<close>\<close>

fun or_empty :: "string option \<Rightarrow> string" where
  "or_empty None = []"
| "or_empty (Some s) = s"

text \<open>
  The prefill: \<open>form.reset({name: ..., email: ...})\<close> replaces the form's values.
\<close>

definition prefill_values :: "user_row \<Rightarrow> SubmissionData" where
  "prefill_values u =
     Obj [(''name'', Str (or_empty (full_name u))), (''email'', Str (or_empty (email u)))]"

text \<open>The \<open>catch\<close> block of \<open>fetchSpace\<close>.\<close>

definition fetch_catch :: "page \<Rightarrow> page" where
  "fetch_catch st =
     (emit (ConsoleError ''Error fetching space:'') st)\<lparr>error := Some ''Attendance session not found''\<rparr>"

text \<open>
  The body after \<open>setSpace\<close> in the accepting branch: \<open>if (user) { ... }\<close>. The query is
  issued, then its awaited result decides: a rejected promise is an exception inside the
  \<open>try\<close>; a result without data skips the prefill; the \<open>error\<close> of the result is not read.
\<close>

definition prefill :: "User option \<Rightarrow> user_row response \<Rightarrow> page \<Rightarrow> page" where
  "prefill user presp st =
     (case user of
        None \<Rightarrow> st
      | Some u \<Rightarrow>
          (let st1 = emit (SelectUser (uid u)) st in
           case presp of
             Threw \<Rightarrow> fetch_catch st1
           | Resp None _ \<Rightarrow> st1
           | Resp (Some userData) _ \<Rightarrow> st1\<lparr>formValues := prefill_values userData\<rparr>))"

text \<open>
  The \<open>try\<close> block once the lookup has resolved with a row and no error.
\<close>

definition resolve :: "(string \<Rightarrow> int option) \<Rightarrow> int \<Rightarrow> User option \<Rightarrow> user_row response
    \<Rightarrow> Space \<Rightarrow> page \<Rightarrow> page" where
  "resolve parse now user presp d st =
     (if status d \<noteq> ''open'' then
        (setSpace d (st\<lparr>error := Some (''This attendance session is '' @ status d)\<rparr>))\<lparr>loading := False\<rparr>
      else if has_ended parse now d then
        (setSpace d (st\<lparr>error := Some ''This attendance session has ended''\<rparr>))\<lparr>loading := False\<rparr>
      else prefill user presp (setSpace d st))"

text \<open>
  One run of the effect. \<open>code\<close> is the route parameter, \<open>sresp\<close> the awaited result of the
  lookup in \<open>spaces\<close>, \<open>presp\<close> that of the lookup in \<open>users\<close> (read only when that query
  is issued). \<open>if (error) throw error\<close> and the \<open>TypeError\<close> of \<open>data.status\<close> on a null
  \<open>data\<close> both land in the \<open>catch\<close>; the \<open>finally\<close> block runs on every path through the
  \<open>try\<close>.
\<close>

definition fetchSpace :: "(string \<Rightarrow> int option) \<Rightarrow> int \<Rightarrow> string option \<Rightarrow> User option
    \<Rightarrow> Space response \<Rightarrow> user_row response \<Rightarrow> page \<Rightarrow> page" where
  "fetchSpace parse now code user sresp presp st =
     (if \<not> truthy_str code then st\<lparr>error := Some ''Invalid attendance code'', loading := False\<rparr>
      else
        (let st1 = emit (SelectSpace (the code)) st;
             st2 = (case sresp of
                      Threw \<Rightarrow> fetch_catch st1
                    | Resp _ (Some e) \<Rightarrow> fetch_catch st1
                    | Resp None None \<Rightarrow> fetch_catch st1
                    | Resp (Some d) None \<Rightarrow> resolve parse now user presp d st1)
         in st2\<lparr>loading := False\<rparr>))"

subsection \<open>Strings: \<open>toLowerCase\<close> and \<open>replace(/\s+/g, '_')\<close>\<close>

text \<open>
  On code units below 256, \<open>toLowerCase\<close> maps \<open>A\<close>-\<open>Z\<close> and the upper-case letters
  of Latin-1 (192-222 without the multiplication sign 215) to the unit 32 above, and
  leaves every other unit alone.
\<close>

definition lower_char :: "char \<Rightarrow> char" where
  "lower_char c =
     (let n = (of_char c :: nat) in
      if (65 \<le> n \<and> n \<le> 90) \<or> (192 \<le> n \<and> n \<le> 222 \<and> n \<noteq> 215) then char_of (n + 32) else c)"

definition toLowerCase :: "string \<Rightarrow> string" where
  "toLowerCase s = map lower_char s"

text \<open>
  The class \<open>\s\<close> on code units below 256: tab, line feed, vertical tab, form feed,
  carriage return, space and the no-break space.
\<close>

definition is_space :: "char \<Rightarrow> bool" where
  "is_space c = ((of_char c :: nat) \<in> {9, 10, 11, 12, 13, 32, 160})"

text \<open>
  \<open>s.replace(/\s+/g, '_')\<close>: scanning from the left, a position that starts a match of
  \<open>\s+\<close> is replaced, with the whole (greedy) match, by one underscore; any other unit is
  copied.
\<close>

function replace_spaces :: "string \<Rightarrow> string" where
  "replace_spaces [] = []"
| "replace_spaces (c # cs) =
     (if is_space c then CHR ''_'' # replace_spaces (dropWhile is_space cs)
      else c # replace_spaces cs)"
  by pat_completeness auto
termination
  by (relation "measure length") (auto simp: less_Suc_eq_le length_dropWhile_le)

text \<open>\<open>customField.name.toLowerCase().replace(/\s+/g, '_')\<close>\<close>

definition field_key :: "string \<Rightarrow> string" where
  "field_key nm = replace_spaces (toLowerCase nm)"

subsection \<open>The email pattern\<close>

text \<open>
  Regular expressions as far as the source uses them: bracket expressions of ranges and
  single characters, literal characters, sequence and repetition. \<open>r+\<close> is \<open>Plus r\<close> and
  \<open>r{2,}\<close> is \<open>AtLeast2 r\<close>. \<open>Zero\<close> and \<open>Alt\<close> only arise as derivatives.
\<close>

datatype item = Range char char | Lit char

datatype rexp =
    Zero
  | One
  | Cls "item list"
  | Chr char
  | Alt rexp rexp
  | Seq rexp rexp
  | Star rexp

definition Plus :: "rexp \<Rightarrow> rexp" where
  "Plus r = Seq r (Star r)"

definition AtLeast2 :: "rexp \<Rightarrow> rexp" where
  "AtLeast2 r = Seq r (Seq r (Star r))"

fun item_has :: "item \<Rightarrow> char \<Rightarrow> bool" where
  "item_has (Range a b) c = ((of_char a :: nat) \<le> of_char c \<and> (of_char c :: nat) \<le> of_char b)"
| "item_has (Lit a) c = (a = c)"

text \<open>
  The flag \<open>i\<close>: two units match when they canonicalise to the same unit. For ASCII
  letters that is the other case of the letter; a unit from 128 on never canonicalises to
  an ASCII unit, and the classes of the source hold ASCII units only.
\<close>

definition ascii_upper :: "char \<Rightarrow> char" where
  "ascii_upper c = (let n = (of_char c :: nat) in if 97 \<le> n \<and> n \<le> 122 then char_of (n - 32) else c)"

definition ascii_lower :: "char \<Rightarrow> char" where
  "ascii_lower c = (let n = (of_char c :: nat) in if 65 \<le> n \<and> n \<le> 90 then char_of (n + 32) else c)"

definition item_has_i :: "item \<Rightarrow> char \<Rightarrow> bool" where
  "item_has_i it c = (item_has it (ascii_upper c) \<or> item_has it (ascii_lower c))"

fun nullable :: "rexp \<Rightarrow> bool" where
  "nullable Zero = False"
| "nullable One = True"
| "nullable (Cls _) = False"
| "nullable (Chr _) = False"
| "nullable (Alt r s) = (nullable r \<or> nullable s)"
| "nullable (Seq r s) = (nullable r \<and> nullable s)"
| "nullable (Star _) = True"

text \<open>What is left of \<open>r\<close> to match after reading the unit \<open>c\<close>, ignoring case.\<close>

fun deriv :: "char \<Rightarrow> rexp \<Rightarrow> rexp" where
  "deriv c Zero = Zero"
| "deriv c One = Zero"
| "deriv c (Cls its) = (if list_ex (\<lambda>it. item_has_i it c) its then One else Zero)"
| "deriv c (Chr a) = (if item_has_i (Lit a) c then One else Zero)"
| "deriv c (Alt r s) = Alt (deriv c r) (deriv c s)"
| "deriv c (Seq r s) =
     (if nullable r then Alt (Seq (deriv c r) s) (deriv c s) else Seq (deriv c r) s)"
| "deriv c (Star r) = Seq (deriv c r) (Star r)"

text \<open>A match of \<open>/^r$/i\<close> against the whole string.\<close>

fun matches :: "rexp \<Rightarrow> string \<Rightarrow> bool" where
  "matches r [] = nullable r"
| "matches r (c # cs) = matches (deriv c r) cs"

text \<open>\<open>/^[A-Z0-9._%+-]+@[A-Z0-9.-]+\.[A-Z]{2,}$/i\<close>\<close>

definition email_pattern :: rexp where
  "email_pattern =
     Seq (Plus (Cls [Range CHR ''A'' CHR ''Z'', Range CHR ''0'' CHR ''9'', Lit CHR ''.'',
                     Lit CHR ''_'', Lit CHR ''%'', Lit CHR ''+'', Lit CHR ''-'']))
    (Seq (Chr CHR ''@'')
    (Seq (Plus (Cls [Range CHR ''A'' CHR ''Z'', Range CHR ''0'' CHR ''9'', Lit CHR ''.'',
                     Lit CHR ''-'']))
    (Seq (Chr CHR ''.'')
         (AtLeast2 (Cls [Range CHR ''A'' CHR ''Z''])))))"

subsection \<open>The Dynamic Field Renderer\<close>

text \<open>
  A rendered \<open>FormField\<close>: the \<open>name\<close> it is bound to (its key in the form's values) and
  its \<open>rules\<close>, that is the message of a \<open>required\<close> rule and the expression and message of
  a \<open>pattern\<close> rule, when present. Labels, placeholders and input types are not modelled.
\<close>

record form_field =
  fkey :: string
  required_rule :: "string option"
  pattern_rule :: "(rexp \<times> string) option"

datatype js_error = TypeError

text \<open>The two fixed fields.\<close>

definition name_field :: form_field where
  "name_field = \<lparr>fkey = ''name'', required_rule = Some ''Name is required'', pattern_rule = None\<rparr>"

definition email_field :: form_field where
  "email_field = \<lparr>fkey = ''email'', required_rule = Some ''Email is required'',
     pattern_rule = Some (email_pattern, ''Invalid email address'')\<rparr>"

text \<open>
  Reading a property of an element of \<open>required_fields\<close>. On \<open>null\<close> the access throws;
  on an object it gives the member or \<open>undefined\<close> (\<open>None\<close>); on any other value it
  gives \<open>undefined\<close>.
\<close>

fun get_prop :: "json \<Rightarrow> string \<Rightarrow> js_error + json option" where
  "get_prop JNull k = Inl TypeError"
| "get_prop (JObj kvs) k = Inr (map_of kvs k)"
| "get_prop _ k = Inr None"

text \<open>
  The body of \<open>required_fields.map((customField) => ...)\<close> for one element. The cast to
  \<open>CustomField[]\<close> checks nothing: \<open>customField.name.toLowerCase()\<close> throws unless
  \<open>name\<close> is a string.
\<close>

definition custom_field :: "json \<Rightarrow> js_error + form_field" where
  "custom_field cf =
     (case get_prop cf ''name'' of
        Inl e \<Rightarrow> Inl e
      | Inr (Some (JStr nm)) \<Rightarrow>
          (case get_prop cf ''required'' of
             Inl e \<Rightarrow> Inl e
           | Inr req \<Rightarrow>
               Inr \<lparr>fkey = field_key nm,
                    required_rule = (if (case req of None \<Rightarrow> False | Some v \<Rightarrow> truthy v)
                                     then Some (nm @ '' is required'') else None),
                    pattern_rule = None\<rparr>)
      | Inr _ \<Rightarrow> Inl TypeError)"

text \<open>\<open>map\<close> with a callback that may throw: the first exception ends it.\<close>

fun map_throwing :: "('a \<Rightarrow> js_error + 'b) \<Rightarrow> 'a list \<Rightarrow> js_error + 'b list" where
  "map_throwing f [] = Inr []"
| "map_throwing f (x # xs) =
     (case f x of
        Inl e \<Rightarrow> Inl e
      | Inr y \<Rightarrow> (case map_throwing f xs of Inl e \<Rightarrow> Inl e | Inr ys \<Rightarrow> Inr (y # ys)))"

text \<open>
  The fields of the form, in the order of the JSX: name, email, then the custom fields.
  \<open>.map\<close> on a value that is not an array throws.
\<close>

definition form_fields :: "Space \<Rightarrow> js_error + form_field list" where
  "form_fields sp =
     (case required_fields sp of
        JArr cfs \<Rightarrow>
          (case map_throwing custom_field cfs of
             Inl e \<Rightarrow> Inl e
           | Inr fs \<Rightarrow> Inr (name_field # email_field # fs))
      | _ \<Rightarrow> Inl TypeError)"

subsection \<open>Render\<close>

text \<open>
  The five returns of the component, in the order of the source. The error view shows the
  message and, when a space is stored, its title, type and status. The form view carries
  its fields and whether the submit button is disabled.
\<close>

datatype view =
    LoadingView
  | ErrorView string "(string \<times> string \<times> string) option"
  | SubmittedView
  | NullView
  | FormView "form_field list" bool

definition render :: "page \<Rightarrow> js_error + view" where
  "render st =
     (if loading st then Inr LoadingView
      else if truthy_str (error st) then
        Inr (ErrorView (the (error st))
              (map_option (\<lambda>sp. (title sp, stype sp, status sp)) (space st)))
      else if submitted st then Inr SubmittedView
      else (case space st of
              None \<Rightarrow> Inr NullView
            | Some sp \<Rightarrow>
                (case form_fields sp of
                   Inl e \<Rightarrow> Inl e
                 | Inr fs \<Rightarrow> Inr (FormView fs (isSubmitting st)))))"

subsection \<open>The Submission Writer: \<open>onSubmit\<close>\<close>

text \<open>\<open>user?.id || null\<close>: an empty id is falsy and becomes null.\<close>

fun id_or_null :: "User option \<Rightarrow> string option" where
  "id_or_null None = None"
| "id_or_null (Some u) = (if uid u = [] then None else Some (uid u))"

text \<open>
  \<open>onSubmit\<close> up to its \<open>await\<close>: the guard on \<open>space\<close>, \<open>setIsSubmitting(true)\<close>, and the
  insert call.
\<close>

definition onSubmit_start :: "User option \<Rightarrow> SubmissionData \<Rightarrow> page \<Rightarrow> page" where
  "onSubmit_start user data st =
     (case space st of
        None \<Rightarrow> st
      | Some sp \<Rightarrow>
          emit (InsertRecord \<lparr>space_id = sid sp, user_id = id_or_null user, sfields = data\<rparr>)
            (st\<lparr>isSubmitting := True\<rparr>))"

text \<open>
  \<open>onSubmit\<close> from the point where the awaited insert settles: \<open>if (error) throw error\<close>,
  the success path, the \<open>catch\<close> and the \<open>finally\<close>.
\<close>

definition onSubmit_settle :: "unit response \<Rightarrow> page \<Rightarrow> page" where
  "onSubmit_settle iresp st =
     (let st1 = (case iresp of
                   Resp _ None \<Rightarrow>
                     emit (Toast ''Success'' ''Attendance submitted successfully!'')
                       (st\<lparr>submitted := True\<rparr>)
                 | _ \<Rightarrow>
                     emit (Toast ''Error'' ''Failed to submit attendance'')
                       (emit (ConsoleError ''Error submitting attendance:'') st))
      in st1\<lparr>isSubmitting := False\<rparr>)"

text \<open>One whole call of \<open>onSubmit\<close>, \<open>iresp\<close> being what the insert gives back.\<close>

definition onSubmit :: "User option \<Rightarrow> unit response \<Rightarrow> SubmissionData \<Rightarrow> page \<Rightarrow> page" where
  "onSubmit user iresp data st =
     (case space st of
        None \<Rightarrow> st
      | Some _ \<Rightarrow> onSubmit_settle iresp (onSubmit_start user data st))"

subsection \<open>The form library: names as paths\<close>

text \<open>
  The library's \<open>set(object, name, value)\<close> and \<open>get(object, name)\<close>. A name made of word
  characters only is one key. Any other name is cut into keys: the characters \<open>"\<close>,
  \<open>|\<close>, \<open>'\<close> and \<open>]\<close> are removed, the rest is split at every \<open>.\<close> and \<open>[\<close>, and empty
  pieces are dropped.
\<close>

definition word_char :: "char \<Rightarrow> bool" where
  "word_char c =
     (let n = (of_char c :: nat) in
      (48 \<le> n \<and> n \<le> 57) \<or> (65 \<le> n \<and> n \<le> 90) \<or> (97 \<le> n \<and> n \<le> 122) \<or> n = 95)"

text \<open>\<open>/^\w*$/.test(name)\<close>\<close>

definition isKey :: "string \<Rightarrow> bool" where
  "isKey name = list_all word_char name"

text \<open>\<open>s.split(sep)\<close> for a separator that matches exactly one character.\<close>

fun split_at :: "(char \<Rightarrow> bool) \<Rightarrow> string \<Rightarrow> string list" where
  "split_at sep [] = [[]]"
| "split_at sep (c # cs) =
     (if sep c then [] # split_at sep cs
      else (case split_at sep cs of
              [] \<Rightarrow> [[c]]
            | piece # pieces \<Rightarrow> (c # piece) # pieces))"

text \<open>\<open>compact\<close>: the pieces that are not empty.\<close>

definition compact :: "string list \<Rightarrow> string list" where
  "compact pieces = filter (\<lambda>p. p \<noteq> []) pieces"

text \<open>\<open>compact(input.replace(/["|']|\]/g, '').split(/\.|\[/))\<close>\<close>

definition stringToPath :: "string \<Rightarrow> string list" where
  "stringToPath input =
     compact (split_at (\<lambda>c. c = CHR ''.'' \<or> c = CHR ''['')
       (filter (\<lambda>c. c \<noteq> CHR 0x22 \<and> c \<noteq> CHR ''|'' \<and> c \<noteq> CHR 0x27 \<and> c \<noteq> CHR '']'') input))"

definition path_of :: "string \<Rightarrow> string list" where
  "path_of name = (if isKey name then [name] else stringToPath name)"

text \<open>
  \<open>!isNaN(+s)\<close>: whether the string converts to a number. After trimming whitespace it
  must be empty, a decimal literal with an optional sign (\<open>Infinity\<close>, or digits with an
  optional fraction and exponent), or an unsigned binary, octal or hexadecimal literal.
\<close>

definition trim :: "string \<Rightarrow> string" where
  "trim s = rev (dropWhile is_space (rev (dropWhile is_space s)))"

definition signed_digits :: "string \<Rightarrow> bool" where
  "signed_digits s =
     (let ds = (case s of [] \<Rightarrow> [] | c # r \<Rightarrow> if c = CHR ''+'' \<or> c = CHR ''-'' then r else s)
      in ds \<noteq> [] \<and> list_all is_digit ds)"

definition exponent_opt :: "string \<Rightarrow> bool" where
  "exponent_opt s =
     (case s of [] \<Rightarrow> True | c # r \<Rightarrow> (c = CHR ''e'' \<or> c = CHR ''E'') \<and> signed_digits r)"

definition unsigned_decimal :: "string \<Rightarrow> bool" where
  "unsigned_decimal s =
     (s = ''Infinity'' \<or>
      (let i = takeWhile is_digit s; r = dropWhile is_digit s in
       case r of
         [] \<Rightarrow> i \<noteq> []
       | c # r' \<Rightarrow>
           if c = CHR ''.''
           then (i \<noteq> [] \<or> takeWhile is_digit r' \<noteq> []) \<and> exponent_opt (dropWhile is_digit r')
           else i \<noteq> [] \<and> exponent_opt r))"

definition digits_of_base :: "char \<Rightarrow> char \<Rightarrow> bool" where
  "digits_of_base b c =
     (let n = (of_char c :: nat) in
      if b = CHR ''b'' \<or> b = CHR ''B'' then n = 48 \<or> n = 49
      else if b = CHR ''o'' \<or> b = CHR ''O'' then 48 \<le> n \<and> n \<le> 55
      else if b = CHR ''x'' \<or> b = CHR ''X''
      then (48 \<le> n \<and> n \<le> 57) \<or> (65 \<le> n \<and> n \<le> 70) \<or> (97 \<le> n \<and> n \<le> 102)
      else False)"

definition non_decimal :: "string \<Rightarrow> bool" where
  "non_decimal s =
     (case s of
        z # b # ds \<Rightarrow> z = CHR ''0'' \<and> ds \<noteq> [] \<and> list_all (digits_of_base b) ds
      | _ \<Rightarrow> False)"

definition js_numeric :: "string \<Rightarrow> bool" where
  "js_numeric s =
     (let t = trim s in
      t = [] \<or> non_decimal t \<or>
      unsigned_decimal (case t of [] \<Rightarrow> [] | c # r \<Rightarrow> if c = CHR ''+'' \<or> c = CHR ''-'' then r else t))"

text \<open>The keys at which \<open>set\<close> stops without writing.\<close>

definition reserved :: "string \<Rightarrow> bool" where
  "reserved k = (k = ''__proto__'' \<or> k = ''constructor'' \<or> k = ''prototype'')"

text \<open>
  The loop of \<open>set\<close> along the keys of a path. At a key that is not the last, the member
  is kept when it is an object or an array, and is otherwise replaced by a new array
  when the next key converts to a number and by a new object when it does not; the loop
  goes on inside it. At the last key the value is written.
\<close>

fun set_path :: "string list \<Rightarrow> jsval \<Rightarrow> jsval \<Rightarrow> jsval" where
  "set_path [] v obj = obj"
| "set_path [k] v obj = (if reserved k then obj else put k v obj)"
| "set_path (k # k' # ks) v obj =
     (if reserved k then obj
      else put k (set_path (k' # ks) v
                    (if is_container (member obj k) then member obj k
                     else if js_numeric k' then Arr [] [] else Obj [])) obj)"

text \<open>\<open>field.onChange\<close>: \<open>set(_formValues, name, value)\<close>.\<close>

definition setValue :: "string \<Rightarrow> jsval \<Rightarrow> SubmissionData \<Rightarrow> SubmissionData" where
  "setValue name v vals = set_path (path_of name) v vals"

text \<open>
  \<open>get(object, name)\<close>: nothing for the empty name; otherwise the member reached along
  the pieces of the name between \<open>,\<close>, \<open>[\<close>, \<open>]\<close> and \<open>.\<close>, and, when there is none, the
  member called by the whole name.
\<close>

definition getValue :: "SubmissionData \<Rightarrow> string \<Rightarrow> jsval" where
  "getValue vals name =
     (if name = [] \<or> \<not> is_container vals then Undefined
      else
        (let pieces = compact (split_at (\<lambda>c. c = CHR '','' \<or> c = CHR ''['' \<or> c = CHR '']''
                                            \<or> c = CHR ''.'') name);
             result = foldl member vals pieces
         in if pieces = [] \<or> result = Undefined then member vals name else result))"

subsection \<open>The form library: \<open>form.handleSubmit(onSubmit)\<close>\<close>

text \<open>
  A rendered field is registered under its name by \<open>set\<close> on the library's registry,
  so a name with no key, or with a reserved key, registers nothing. The errors of a
  validation are kept by name as well, and read back with \<open>get\<close>, which finds nothing
  under the empty name. The rules of a field are therefore in force only when its name
  is not empty and registers.
\<close>

definition in_force :: "string \<Rightarrow> bool" where
  "in_force name = (name \<noteq> [] \<and> path_of name \<noteq> [] \<and> list_all (\<lambda>k. \<not> reserved k) (path_of name))"

text \<open>
  A value is empty when it is undefined, the empty string or an array without elements.
  \<open>required\<close> fails on an empty value; \<open>pattern\<close> is checked on strings that are not
  empty.
\<close>

fun is_empty :: "jsval \<Rightarrow> bool" where
  "is_empty Undefined = True"
| "is_empty (Str s) = (s = [])"
| "is_empty (Arr xs ps) = (xs = [])"
| "is_empty (Obj kvs) = False"

definition field_valid :: "SubmissionData \<Rightarrow> form_field \<Rightarrow> bool" where
  "field_valid vals f =
     (let v = getValue vals (fkey f) in
      (if required_rule f = None then True else \<not> is_empty v) \<and>
      (case pattern_rule f of
         None \<Rightarrow> True
       | Some (re, msg) \<Rightarrow> (case v of Str s \<Rightarrow> s = [] \<or> matches re s | _ \<Rightarrow> True)))"

text \<open>Whether the library finds no error and calls the handler.\<close>

definition no_errors :: "form_field list \<Rightarrow> SubmissionData \<Rightarrow> bool" where
  "no_errors fs vals = list_all (\<lambda>f. if in_force (fkey f) then field_valid vals f else True) fs"

text \<open>
  \<open>form.handleSubmit(onSubmit)\<close> for a form with the registered fields \<open>fs\<close>: up to the
  \<open>await\<close> of the insert, and as a whole.
\<close>

definition handleSubmit_start :: "form_field list \<Rightarrow> User option \<Rightarrow> page \<Rightarrow> page" where
  "handleSubmit_start fs user st =
     (if no_errors fs (formValues st) then onSubmit_start user (formValues st) st else st)"


subsection \<open>Events on the rendered page\<close>

text \<open>
  A page in use: the component state, the view of the render that React committed last,
  and the number of insert calls that have been issued and have not settled yet. State
  updates change the component state at once; the view changes only at a commit.
\<close>

record session =
  ui :: page
  shown :: "js_error + view"
  pending :: nat

text \<open>
  The handlers of the page, as the browser, the store and React call them. An event is
  a call of a handler; what the browser does before it calls one is the browser's and
  is not modelled.
  \<^item> \<open>Change i v\<close>: the change handler of the \<open>i\<close>-th input of the form is called with an
    event whose target has the value \<open>v\<close>. That is the string the browser holds for the
    input, after cleaning what was typed as the input's type asks (an input of type
    \<open>number\<close> holds the empty string for a text that is no number).
  \<^item> \<open>Submit\<close>: the form's submit handler is called. The browser calls it for a click on
    the submit button or the Enter key, after its own checks of the inputs (an input
    of type \<open>email\<close> must hold an email address or nothing), and never while the button
    is disabled.
  \<^item> \<open>Settled r\<close>: an awaited insert gives back \<open>r\<close>.
  \<^item> \<open>Commit\<close>: React commits a render of the current state.

  Inputs and the button are those of the committed view, whatever the state has become
  since. The validation and \<open>onSubmit\<close> up to its \<open>await\<close> run in microtasks of the
  submit event, before any other event is taken; the render that shows their state
  updates is committed later.
\<close>

datatype event = Change nat string | Submit | Settled "unit response" | Commit

definition step :: "User option \<Rightarrow> event \<Rightarrow> session \<Rightarrow> session" where
  "step user ev w =
     (case ev of
        Change i v \<Rightarrow>
          (case shown w of
             Inr (FormView fs disabled) \<Rightarrow>
               (if i < length fs
                then w\<lparr>ui := (ui w)\<lparr>formValues := setValue (fkey (fs ! i)) (Str v) (formValues (ui w))\<rparr>\<rparr>
                else w)
           | _ \<Rightarrow> w)
      | Submit \<Rightarrow>
          (case shown w of
             Inr (FormView fs disabled) \<Rightarrow>
               (if disabled then w
                else (let st' = handleSubmit_start fs user (ui w)
                      in w\<lparr>ui := st',
                           pending := pending w + (length (inserts (trace st'))
                                                   - length (inserts (trace (ui w))))\<rparr>))
           | _ \<Rightarrow> w)
      | Settled r \<Rightarrow>
          (if pending w = 0 then w
           else w\<lparr>ui := onSubmit_settle r (ui w), pending := pending w - 1\<rparr>)
      | Commit \<Rightarrow> w\<lparr>shown := render (ui w)\<rparr>)"

fun run :: "User option \<Rightarrow> event list \<Rightarrow> session \<Rightarrow> session" where
  "run user [] w = w"
| "run user (ev # evs) w = run user evs (step user ev w)"

text \<open>
  A page load: the first run of the effect on the initial state and the commit of the
  render that follows it; nothing is pending.
\<close>

definition load :: "(string \<Rightarrow> int option) \<Rightarrow> int \<Rightarrow> string option \<Rightarrow> User option
    \<Rightarrow> Space response \<Rightarrow> user_row response \<Rightarrow> session" where
  "load parse now code user sresp presp =
     \<lparr>ui = fetchSpace parse now code user sresp presp initial,
      shown = render (fetchSpace parse now code user sresp presp initial),
      pending = 0\<rparr>"

text \<open>
  The accepting branch of the resolver: the lookup gave a row and no error, the row's
  status is \<open>open\<close> and it has not ended.
\<close>

fun accepting :: "(string \<Rightarrow> int option) \<Rightarrow> int \<Rightarrow> Space response \<Rightarrow> bool" where
  "accepting parse now (Resp (Some d) None) = (status d = ''open'' \<and> \<not> has_ended parse now d)"
| "accepting parse now _ = False"

subsection \<open>Well-formed schemas\<close>

text \<open>
  \<open>interface CustomField\<close>, with \<open>cf_\<close> before each member's name, and the JSON object
  that stands for it in a stored \<open>required_fields\<close> array.
\<close>

datatype field_type = TextField | EmailField | NumberField

record CustomField =
  cf_id :: string
  cf_name :: string
  cf_type :: field_type
  cf_required :: bool

fun type_name :: "field_type \<Rightarrow> string" where
  "type_name TextField = ''text''"
| "type_name EmailField = ''email''"
| "type_name NumberField = ''number''"

definition encode :: "CustomField \<Rightarrow> json" where
  "encode cf = JObj [(''id'', JStr (cf_id cf)), (''name'', JStr (cf_name cf)),
                     (''type'', JStr (type_name (cf_type cf))), (''required'', JBool (cf_required cf))]"

subsection \<open>The normalized key in the specification's words\<close>



subsection \<open>Example data\<close>

text \<open>
  The space of the specification's concrete scenario (code \<open>TEND-00042\<close>, one required
  number field "Student ID"), variants of it, and a date parser that knows one date.
\<close>

definition student_id :: CustomField where
  "student_id = \<lparr>cf_id = ''1721460000000'', cf_name = ''Student ID'', cf_type = NumberField,
     cf_required = True\<rparr>"

definition open_space :: Space where
  "open_space = \<lparr>sid = ''5f0c'', title = ''Algebra I'', stype = ''Class'',
     required_fields = JArr [encode student_id], status = ''open'',
     start_time = None, end_time = None\<rparr>"

definition closed_space :: Space where
  "closed_space = open_space\<lparr>status := ''closed''\<rparr>"

definition ended_space :: Space where
  "ended_space = open_space\<lparr>end_time := Some ''2025-07-01T10:00:00.000Z''\<rparr>"

definition string_schema_space :: Space where
  "string_schema_space = open_space\<lparr>required_fields := JStr ''[]''\<rparr>"

definition example_parse :: "string \<Rightarrow> int option" where
  "example_parse s = (if s = ''2025-07-01T10:00:00.000Z'' then Some 1751364000000 else None)"

definition example_code :: "string option" where
  "example_code = Some ''TEND-00042''"

definition jane :: User where
  "jane = User ''u-17''"

definition jane_row :: user_row where
  "jane_row = \<lparr>full_name = Some ''Jane Doe'', email = Some ''jane@x.com''\<rparr>"

definition jane_values :: SubmissionData where
  "jane_values = Obj [(''name'', Str ''Jane Doe''), (''email'', Str ''jane@x.com''),
                      (''student_id'', Str ''99'')]"

text \<open>The three events in which Jane's values reach the form.\<close>

definition jane_types :: "event list" where
  "jane_types = [Change 0 ''Jane Doe'', Change 1 ''jane@x.com'', Change 2 ''99'']"


definition open_fields :: "form_field list" where
  "open_fields = [name_field, email_field,
     \<lparr>fkey = ''student_id'', required_rule = Some ''Student ID is required'', pattern_rule = None\<rparr>]"


text \<open>
  The example space with an end time, loaded by an anonymous visitor one millisecond
  before it ends, after the visitor has typed Jane's values.
\<close>

definition late_page :: session where
  "late_page = run None jane_types
     (load example_parse 1751363999999 example_code None (Resp (Some ended_space) None) Threw)"

text \<open>
  The example space with its status changed to \<open>closed\<close>, loaded by an anonymous visitor.
\<close>

definition closed_page :: session where
  "closed_page = load example_parse 0 example_code None (Resp (Some closed_space) None) Threw"






text \<open>
  A space whose one custom field, required, is called "No. of guests", loaded by an
  anonymous visitor, who types a name, an email and the number 3.
\<close>

definition guests :: CustomField where
  "guests = \<lparr>cf_id = ''3'', cf_name = ''No. of guests'', cf_type = NumberField, cf_required = True\<rparr>"

definition guests_space :: Space where
  "guests_space = open_space\<lparr>required_fields := JArr [encode guests]\<rparr>"

definition guests_page :: session where
  "guests_page = run None [Change 0 ''Jane Doe'', Change 1 ''jane@x.com'', Change 2 ''3'']
     (load example_parse 0 example_code None (Resp (Some guests_space) None) Threw)"







section \<open>Properties\<close>

lemmas fetch_defs = fetchSpace_def resolve_def prefill_def fetch_catch_def setSpace_def emit_def

subsection \<open>Session Resolver\<close>

text \<open>
  C4. A found space whose status is not \<open>open\<close> is rejected: the error is the message
  naming the space's current status string, whatever \<open>end_time\<close> is (nothing is assumed
  about it), the space is stored, and the page renders the error view with that message
  and not the form. Nothing but the lookup is issued.
\<close>

theorem status_rejected:
  assumes "truthy_str code" and "status d \<noteq> ''open''"
  shows "error (fetchSpace parse now code user (Resp (Some d) None) presp st)
           = Some (''This attendance session is '' @ status d)
       \<and> space (fetchSpace parse now code user (Resp (Some d) None) presp st)
           = Some (d\<lparr>required_fields := array_or_empty (required_fields d)\<rparr>)
       \<and> render (fetchSpace parse now code user (Resp (Some d) None) presp st)
           = Inr (ErrorView (''This attendance session is '' @ status d)
                    (Some (title d, stype d, status d)))
       \<and> trace (fetchSpace parse now code user (Resp (Some d) None) presp st)
           = trace st @ [SelectSpace (the code)]"
  using assms by (simp add: fetch_defs render_def)

theorem status_rejected_witness:
  "truthy_str example_code \<and> status closed_space \<noteq> ''open''
   \<and> error (fetchSpace example_parse 0 example_code None (Resp (Some closed_space) None) Threw initial)
       = Some ''This attendance session is closed''
   \<and> render (fetchSpace example_parse 0 example_code None (Resp (Some closed_space) None) Threw initial)
       = Inr (ErrorView ''This attendance session is closed'' (Some (''Algebra I'', ''Class'', ''closed'')))"
  using status_rejected [of example_code closed_space example_parse 0 None Threw initial]
  by (simp add: example_code_def closed_space_def open_space_def)

text \<open>
  C3. A found space whose status is \<open>open\<close> and whose \<open>end_time\<close> is set and parses to a
  time strictly before the current time is rejected with the message that the session
  has ended; the space is stored and the page renders the error view, not the form.
\<close>

theorem ended_rejected:
  assumes "truthy_str code" and "status d = ''open''"
      and "end_time d = Some s" and "s \<noteq> []" and "parse s = Some t" and "t < now"
  shows "error (fetchSpace parse now code user (Resp (Some d) None) presp st)
           = Some ''This attendance session has ended''
       \<and> space (fetchSpace parse now code user (Resp (Some d) None) presp st)
           = Some (d\<lparr>required_fields := array_or_empty (required_fields d)\<rparr>)
       \<and> render (fetchSpace parse now code user (Resp (Some d) None) presp st)
           = Inr (ErrorView ''This attendance session has ended''
                    (Some (title d, stype d, ''open'')))
       \<and> trace (fetchSpace parse now code user (Resp (Some d) None) presp st)
           = trace st @ [SelectSpace (the code)]"
  using assms by (simp add: fetch_defs render_def has_ended_def)

theorem ended_rejected_witness:
  "truthy_str example_code \<and> status ended_space = ''open''
   \<and> end_time ended_space = Some ''2025-07-01T10:00:00.000Z''
   \<and> example_parse ''2025-07-01T10:00:00.000Z'' = Some 1751364000000
   \<and> (1751364000000 :: int) < 1751364000001
   \<and> render (fetchSpace example_parse 1751364000001 example_code None
               (Resp (Some ended_space) None) Threw initial)
       = Inr (ErrorView ''This attendance session has ended'' (Some (''Algebra I'', ''Class'', ''open'')))"
  using ended_rejected [of example_code ended_space "''2025-07-01T10:00:00.000Z''" example_parse
      1751364000000 1751364000001 None Threw initial]
  by (simp add: example_code_def ended_space_def open_space_def example_parse_def)

text \<open>
  C10. Whatever branch the resolver takes for a found row, a \<open>required_fields\<close> value
  that is not an array is stored as the empty array, and the stored space then renders
  the two fixed fields only; rendering the row as fetched would throw. In the accepting
  branch (here for an anonymous visitor on a fresh page) the form view shows exactly the
  name and email fields.
\<close>

theorem malformed_schema_dropped:
  assumes "truthy_str code" and "\<not> isArray (required_fields d)"
  shows "space (fetchSpace parse now code user (Resp (Some d) None) presp st)
           = Some (d\<lparr>required_fields := JArr []\<rparr>)
       \<and> form_fields (d\<lparr>required_fields := JArr []\<rparr>) = Inr [name_field, email_field]
       \<and> form_fields d = Inl TypeError
       \<and> (status d = ''open'' \<and> \<not> has_ended parse now d \<longrightarrow>
            render (fetchSpace parse now code None (Resp (Some d) None) presp initial)
              = Inr (FormView [name_field, email_field] False))"
  using assms
  by (cases "required_fields d")
     (simp_all add: fetch_defs Let_def array_or_empty_def form_fields_def render_def initial_def
       split: option.splits response.splits)

theorem malformed_schema_dropped_witness:
  "truthy_str example_code \<and> \<not> isArray (required_fields string_schema_space)
   \<and> status string_schema_space = ''open'' \<and> \<not> has_ended example_parse 0 string_schema_space
   \<and> space (fetchSpace example_parse 0 example_code None (Resp (Some string_schema_space) None) Threw initial)
       = Some (string_schema_space\<lparr>required_fields := JArr []\<rparr>)
   \<and> render (fetchSpace example_parse 0 example_code None (Resp (Some string_schema_space) None) Threw initial)
       = Inr (FormView [name_field, email_field] False)"
  using malformed_schema_dropped [of example_code string_schema_space example_parse 0 None Threw initial]
  by (simp add: example_code_def string_schema_space_def open_space_def has_ended_def)

text \<open>
  C9. Every exception of the resolution effect lands in its one \<open>catch\<close>. When the lookup
  rejects, returns an error, or returns neither data nor error, the state afterwards is
  the state before with the lookup and one \<open>console.error\<close> in the trace, the error
  "Attendance session not found" and loading off; so a failed lookup and a lookup that
  found no row leave the same state and the same view. When the lookup succeeds into the
  accepting branch and the prefill query rejects, the same \<open>catch\<close> sets the same message,
  with the space already stored.
\<close>

theorem resolver_errors_land_in_catch:
  assumes "truthy_str code"
  shows "(sresp = Threw \<or> sresp = Resp r (Some e) \<or> sresp = Resp None None \<longrightarrow>
            fetchSpace parse now code user sresp presp st
              = st\<lparr>trace := trace st @ [SelectSpace (the code), ConsoleError ''Error fetching space:''],
                   error := Some ''Attendance session not found'', loading := False\<rparr>
          \<and> render (fetchSpace parse now code user sresp presp st)
              = Inr (ErrorView ''Attendance session not found''
                       (map_option (\<lambda>sp. (title sp, stype sp, status sp)) (space st))))
       \<and> fetchSpace parse now code user Threw presp st
           = fetchSpace parse now code user (Resp None (Some e)) presp st
       \<and> (status d = ''open'' \<and> \<not> has_ended parse now d \<longrightarrow>
            fetchSpace parse now code (Some u) (Resp (Some d) None) Threw st
              = st\<lparr>trace := trace st @ [SelectSpace (the code), SelectUser (uid u),
                                         ConsoleError ''Error fetching space:''],
                   space := Some (d\<lparr>required_fields := array_or_empty (required_fields d)\<rparr>),
                   error := Some ''Attendance session not found'', loading := False\<rparr>
          \<and> render (fetchSpace parse now code (Some u) (Resp (Some d) None) Threw st)
              = Inr (ErrorView ''Attendance session not found'' (Some (title d, stype d, status d))))"
  using assms by (auto simp add: fetch_defs Let_def render_def split: option.splits)

theorem resolver_errors_land_in_catch_witness:
  "truthy_str example_code
   \<and> status open_space = ''open'' \<and> \<not> has_ended example_parse 0 open_space
   \<and> error (fetchSpace example_parse 0 example_code None Threw Threw initial)
       = Some ''Attendance session not found''
   \<and> render (fetchSpace example_parse 0 example_code None Threw Threw initial)
       = Inr (ErrorView ''Attendance session not found'' None)
   \<and> render (fetchSpace example_parse 0 example_code (Some jane) (Resp (Some open_space) None) Threw initial)
       = Inr (ErrorView ''Attendance session not found'' (Some (''Algebra I'', ''Class'', ''open'')))"
  using resolver_errors_land_in_catch [of example_code Threw None "''offline''" example_parse 0 None
      Threw initial open_space jane]
  by (simp add: example_code_def open_space_def has_ended_def initial_def render_def)

subsection \<open>Identity Prefill\<close>

lemma render_trace: "render (st\<lparr>trace := t\<rparr>) = render st"
  by (simp add: render_def split: option.splits sum.splits)

lemma prefills_append: "prefills (xs @ ys) = prefills xs @ prefills ys"
  by (induction xs rule: prefills.induct) simp_all

lemma inserts_append: "inserts (xs @ ys) = inserts xs @ inserts ys"
  by (induction xs rule: inserts.induct) simp_all

lemma logged_append: "logged (xs @ ys) = logged xs @ logged ys"
  by (induction xs rule: logged.induct) simp_all


text \<open>
  C8, as the code has it. One run of the resolution effect issues the prefill query at
  most once: never for an anonymous visitor, and for an authenticated one exactly when
  the space has resolved into the accepting branch, after the lookup. The statement is
  about one run, from any state: a later run of the effect fetches again. A prefill
  query that comes back without a row, with or without an error in its result, is
  skipped without a trace: the state is that of an anonymous visit but for the query in
  the trace, the view is the same, and nothing is logged.
\<close>

theorem prefill_once_and_skipped:
  assumes "truthy_str code"
  shows "prefills (trace (fetchSpace parse now code None sresp presp st)) = prefills (trace st)
       \<and> prefills (trace (fetchSpace parse now code (Some u) sresp presp st))
           = prefills (trace st) @ (if accepting parse now sresp then [uid u] else [])
       \<and> length (prefills (trace (fetchSpace parse now code user sresp presp st)))
           \<le> Suc (length (prefills (trace st)))
       \<and> (accepting parse now sresp \<longrightarrow>
            fetchSpace parse now code (Some u) sresp (Resp None e) st
              = (fetchSpace parse now code None sresp presp st)
                  \<lparr>trace := trace st @ [SelectSpace (the code), SelectUser (uid u)]\<rparr>
          \<and> render (fetchSpace parse now code (Some u) sresp (Resp None e) st)
              = render (fetchSpace parse now code None sresp presp st)
          \<and> logged (trace (fetchSpace parse now code (Some u) sresp (Resp None e) st))
              = logged (trace st))"
proof -
  have none: "prefills (trace (fetchSpace parse now code None sresp presp st)) = prefills (trace st)"
    using assms
    by (cases "(parse, now, sresp)" rule: accepting.cases)
       (simp_all add: fetch_defs Let_def prefills_append split: response.splits option.splits)
  have some: "prefills (trace (fetchSpace parse now code (Some u) sresp presp st))
           = prefills (trace st) @ (if accepting parse now sresp then [uid u] else [])" for u
    using assms
    by (cases "(parse, now, sresp)" rule: accepting.cases)
       (simp_all add: fetch_defs Let_def prefills_append split: response.splits option.splits)
  have le: "length (prefills (trace (fetchSpace parse now code user sresp presp st)))
           \<le> Suc (length (prefills (trace st)))"
    using none some by (cases user) simp_all
  have skip: "accepting parse now sresp \<Longrightarrow>
            fetchSpace parse now code (Some u) sresp (Resp None e) st
              = (fetchSpace parse now code None sresp presp st)
                  \<lparr>trace := trace st @ [SelectSpace (the code), SelectUser (uid u)]\<rparr>
          \<and> render (fetchSpace parse now code (Some u) sresp (Resp None e) st)
              = render (fetchSpace parse now code None sresp presp st)
          \<and> logged (trace (fetchSpace parse now code (Some u) sresp (Resp None e) st))
              = logged (trace st)"
    using assms
    by (cases "(parse, now, sresp)" rule: accepting.cases)
       (simp_all add: fetch_defs Let_def logged_append render_def
          split: response.splits option.splits sum.splits)
  show ?thesis using none some le skip by blast
qed

theorem prefill_once_and_skipped_witness:
  "truthy_str example_code \<and> accepting example_parse 0 (Resp (Some open_space) None)
   \<and> prefills (trace (fetchSpace example_parse 0 example_code (Some jane) (Resp (Some open_space) None)
                 (Resp None (Some ''PGRST116'')) initial)) = [''u-17'']
   \<and> render (fetchSpace example_parse 0 example_code (Some jane) (Resp (Some open_space) None)
               (Resp None (Some ''PGRST116'')) initial)
       = render (fetchSpace example_parse 0 example_code None (Resp (Some open_space) None)
               (Resp None (Some ''PGRST116'')) initial)
   \<and> logged (trace (fetchSpace example_parse 0 example_code (Some jane) (Resp (Some open_space) None)
                (Resp None (Some ''PGRST116'')) initial)) = []"
  using prefill_once_and_skipped [of example_code example_parse 0 "Resp (Some open_space) None"
      "Resp None (Some ''PGRST116'')" initial jane "Some jane" "Some ''PGRST116''"]
  by (simp add: example_code_def open_space_def has_ended_def initial_def jane_def render_trace)

text \<open>
  C8 as stated fails. The effect depends on the user, so it runs again when the identity
  changes: on the example page loaded by Jane, a second run fetches her profile a second
  time. And a prefill query that returns an error in its result is not logged.
\<close>

theorem prefill_runs_again:
  "prefills (trace (ui (load example_parse 0 example_code (Some jane) (Resp (Some open_space) None)
                          (Resp (Some jane_row) None)))) = [''u-17'']
   \<and> prefills (trace (fetchSpace example_parse 0 example_code (Some jane) (Resp (Some open_space) None)
                 (Resp (Some jane_row) None)
                 (ui (load example_parse 0 example_code (Some jane) (Resp (Some open_space) None)
                        (Resp (Some jane_row) None))))) = [''u-17'', ''u-17'']
   \<and> logged (trace (fetchSpace example_parse 0 example_code (Some jane) (Resp (Some open_space) None)
                (Resp None (Some ''PGRST116'')) initial)) = []"
  by code_simp

subsection \<open>Submission Writer\<close>

lemma step_no_form:
  assumes "\<And>fs b. shown w \<noteq> Inr (FormView fs b)" and "pending w = 0" and "shown w = render (ui w)"
  shows "step user ev w = w"
  using assms by (cases ev) (auto simp: step_def split: sum.splits view.splits)

lemma run_no_form:
  assumes "\<And>fs b. shown w \<noteq> Inr (FormView fs b)" and "pending w = 0" and "shown w = render (ui w)"
  shows "run user evs w = w"
  using assms by (induction evs) (simp_all add: step_no_form)

lemma onSubmit_inserts:
  "inserts (trace (onSubmit user iresp data st))
     = inserts (trace st) @
       (case space st of
          None \<Rightarrow> []
        | Some sp \<Rightarrow> [\<lparr>space_id = sid sp, user_id = id_or_null user, sfields = data\<rparr>])"
  by (simp add: onSubmit_def onSubmit_start_def onSubmit_settle_def emit_def Let_def inserts_append
           split: response.splits option.splits)

text \<open>
  C1, as the code has it. \<open>onSubmit\<close> checks only that a space is stored: it issues no
  insert when none is, and one insert for the stored space otherwise, whatever that
  space's status or end time. A space that is not accepting when the page loads is
  turned away at the load: the page commits the error view and no form, and no sequence
  of events on that page issues an insert.
\<close>

theorem rejected_page_never_inserts:
  assumes "truthy_str code" and "status d \<noteq> ''open'' \<or> has_ended parse now d"
  shows "shown (load parse now code user (Resp (Some d) None) presp)
           = Inr (ErrorView (if status d \<noteq> ''open'' then ''This attendance session is '' @ status d
                             else ''This attendance session has ended'')
                    (Some (title d, stype d, status d)))
       \<and> inserts (trace (ui (run user' evs (load parse now code user (Resp (Some d) None) presp)))) = []
       \<and> inserts (trace (onSubmit user' iresp data st))
           = inserts (trace st) @
             (case space st of
                None \<Rightarrow> []
              | Some sp \<Rightarrow> [\<lparr>space_id = sid sp, user_id = id_or_null user', sfields = data\<rparr>])"
proof -
  let ?w = "load parse now code user (Resp (Some d) None) presp"
  have view: "shown ?w
           = Inr (ErrorView (if status d \<noteq> ''open'' then ''This attendance session is '' @ status d
                             else ''This attendance session has ended'')
                    (Some (title d, stype d, status d)))"
    using assms by (auto simp: load_def fetch_defs Let_def render_def)
  have idle: "pending ?w = 0" and cur: "shown ?w = render (ui ?w)" by (simp_all add: load_def)
  have "run user' evs ?w = ?w"
    by (rule run_no_form) (simp_all add: view idle cur [symmetric])
  moreover have "inserts (trace (ui ?w)) = []"
    using assms by (auto simp: load_def fetch_defs Let_def initial_def)
  ultimately have quiet: "inserts (trace (ui (run user' evs ?w))) = []" by simp
  show ?thesis using view quiet onSubmit_inserts by blast
qed

theorem rejected_page_never_inserts_witness:
  "truthy_str example_code
   \<and> status closed_space \<noteq> ''open''
   \<and> shown closed_page
       = Inr (ErrorView ''This attendance session is closed'' (Some (''Algebra I'', ''Class'', ''closed'')))
   \<and> inserts (trace (ui (run None [Change 0 ''Jane Doe'', Submit, Commit, Submit] closed_page))) = []"
  using rejected_page_never_inserts [of example_code closed_space example_parse 0 None Threw None
      "[Change 0 ''Jane Doe'', Submit, Commit, Submit]"]
  by (simp add: example_code_def closed_space_def open_space_def closed_page_def)

text \<open>
  C1 as stated fails: nothing is checked again at the submit. The example space with an
  end time is loaded one millisecond before it ends, so the form is shown; no handler
  reads the clock, and a submit of Jane's values one millisecond after the end, when the
  stored space has ended, issues the insert.
\<close>

theorem late_submit_inserts:
  "shown late_page = Inr (FormView open_fields False)
   \<and> space (ui late_page) = Some ended_space
   \<and> has_ended example_parse 1751364000001 ended_space
   \<and> inserts (trace (ui (run None [Submit] late_page)))
       = [\<lparr>space_id = ''5f0c'', user_id = None, sfields = jane_values\<rparr>]"
  by code_simp


subsection \<open>Dynamic Field Renderer and validation\<close>


text \<open>
  C6, at the input where the code departs from it. The custom field "No. of guests" is
  rendered under the key \<open>no._of_guests\<close>; the form library reads the dot as a path, so
  the successful submission's single insert carries the fields \<open>name\<close>, \<open>email\<close> and
  \<open>no\<close>, the last an object with the member \<open>_of_guests\<close>, and no entry with the
  rendered key.
\<close>

theorem dotted_name_nests_payload:
  "shown guests_page
     = Inr (FormView [name_field, email_field,
              \<lparr>fkey = ''no._of_guests'', required_rule = Some ''No. of guests is required'',
                 pattern_rule = None\<rparr>] False)
   \<and> submitted (ui (run None [Submit, Settled (Resp None None)] guests_page))
   \<and> inserts (trace (ui (run None [Submit, Settled (Resp None None)] guests_page)))
       = [\<lparr>space_id = ''5f0c'', user_id = None,
           sfields = Obj [(''name'', Str ''Jane Doe''), (''email'', Str ''jane@x.com''),
                          (''no'', Obj [(''_of_guests'', Str ''3'')])]\<rparr>]"
  by code_simp


















end
